theory Spec2Isabelle
  imports Complex_Main
begin

section \<open>Exceptions and what the collaborators supply\<close>

text \<open>
  The handlers raise \<open>HTTPException(status_code, detail)\<close>. Two of them
  (\<open>update_order_status\<close>, \<open>update_lab_order_status\<close>) name a parameter \<open>status\<close>, which
  hides the imported module \<open>status\<close> inside the body: there the expression
  \<open>status.HTTP_400_BAD_REQUEST\<close> is an attribute lookup on a \<open>str\<close> and raises
  \<open>AttributeError\<close>, recorded here with the type name and the attribute looked up.
\<close>

datatype exc =
    HTTPException (status_code: int) (detail: string)
  | AttributeError string string

abbreviation HTTP_400_BAD_REQUEST :: int where "HTTP_400_BAD_REQUEST \<equiv> 400"
abbreviation HTTP_404_NOT_FOUND :: int where "HTTP_404_NOT_FOUND \<equiv> 404"

text \<open>
  Everything a request takes from outside the handler is a field of \<open>env\<close>:
  \<^item> the float arithmetic of the interpreter on the type \<open>'f\<close> of floats: the float of the
    integer \<open>0\<close>, float addition, and float times integer (\<open>price * quantity\<close>). No law
    of arithmetic is assumed of them, so what is proved holds for rounding arithmetic too;
  \<^item> \<open>exc_str\<close>, the library's \<open>str(e)\<close> of a caught exception;
  \<^item> \<open>utcnow\<close>, the clock read by \<open>datetime.utcnow()\<close>;
  \<^item> \<open>storage_error\<close>: \<open>None\<close> when flush and commit go through, \<open>Some msg\<close> when the
    database raises there, \<open>msg\<close> being \<open>str\<close> of that exception;
  \<^item> the primary keys the database assigns to a new order and a new prescription.
\<close>

record 'f env =
  fzero :: 'f
  fadd :: "'f \<Rightarrow> 'f \<Rightarrow> 'f"
  fmul_int :: "'f \<Rightarrow> int \<Rightarrow> 'f"
  exc_str :: "exc \<Rightarrow> string"
  utcnow :: nat
  storage_error :: "string option"
  new_order_id :: int
  new_prescription_id :: int

section \<open>Data model (models.py)\<close>

record 'f Product =
  id :: int
  name :: string
  description :: "string option"
  price :: 'f
  stock :: int
  created_at :: nat
  updated_at :: nat

record 'f ProductCreate =
  name :: string
  description :: "string option"
  price :: 'f
  stock :: int

record 'f Order =
  id :: int
  user_id :: "int option"
  total_amount :: 'f
  status :: string
  created_at :: nat
  updated_at :: nat

text \<open>
  The association table \<open>order_items\<close>. The relationship \<open>Order.products\<close> names it as
  its \<open>secondary\<close> table, and a row written through the relationship carries the two
  foreign keys only; the other two columns stay NULL unless a statement sets them.
\<close>

record 'f order_items =
  order_id :: int
  product_id :: int
  quantity :: "int option"
  price_at_time :: "'f option"

record PrescriptionCreate =
  right_eye_sphere :: string
  right_eye_cylinder :: string
  right_eye_axis :: string
  right_eye_add :: "string option"
  left_eye_sphere :: string
  left_eye_cylinder :: string
  left_eye_axis :: string
  left_eye_add :: "string option"
  material :: string
  treatment :: string
  requires_add :: bool
  notes_ :: "string option"

record Prescription = PrescriptionCreate +
  id :: int
  order_id :: int
  created_at :: nat
  updated_at :: nat

record LabOrder =
  id :: int
  prescription_id :: int
  status :: string
  notes_ :: "string option"
  created_at :: nat
  updated_at :: nat

record OrderItemBase =
  product_id :: int
  quantity :: int

record OrderCreate =
  items :: "OrderItemBase list"
  prescription :: "PrescriptionCreate option"

text \<open>
  The committed contents of the database: one list of rows per table.

  Scope of the model. A Float column holds a float and an Integer column an integer of any
  size, never NULL, as the request models that feed them require. Float times integer is
  total (the conversion of an integer beyond the float range is left out). The time
  \<open>utcnow\<close> stands for every clock reading of one request. \<open>Product.updated_at\<close> is
  written where a handler assigns it; the column's \<open>onupdate\<close> default, which the
  database layer applies when it writes a changed row on its own, is not part of the
  model, and no property below reads \<open>updated_at\<close> of a row that order creation changed.
  A handler's result is the value it returns; the validation of that value against the
  route's response model is modelled for the route of order creation (\<open>post_orders\<close>).
\<close>

record 'f db =
  products :: "'f Product list"
  orders :: "'f Order list"
  order_item_rows :: "'f order_items list"
  prescriptions :: "Prescription list"
  lab_orders :: "LabOrder list"

section \<open>Queries and writes of the session\<close>

text \<open>\<open>db.query(Product).filter(Product.id == product_id).first()\<close>\<close>

definition get_product :: "'f Product list \<Rightarrow> int \<Rightarrow> 'f Product option" where
  "get_product rows pid = find (\<lambda>p. Product.id p = pid) rows"

text \<open>\<open>db.query(Product).filter(Product.name == name).first()\<close>\<close>

definition get_product_by_name :: "'f Product list \<Rightarrow> string \<Rightarrow> 'f Product option" where
  "get_product_by_name rows n = find (\<lambda>p. Product.name p = n) rows"

text \<open>A changed object is written to the row of its primary key.\<close>

definition put_product :: "'f Product list \<Rightarrow> 'f Product \<Rightarrow> 'f Product list" where
  "put_product rows p = map (\<lambda>r. if Product.id r = Product.id p then p else r) rows"

definition get_order :: "'f Order list \<Rightarrow> int \<Rightarrow> 'f Order option" where
  "get_order rows oid = find (\<lambda>r. Order.id r = oid) rows"

definition put_order :: "'f Order list \<Rightarrow> 'f Order \<Rightarrow> 'f Order list" where
  "put_order rows r' = map (\<lambda>r. if Order.id r = Order.id r' then r' else r) rows"

definition get_lab_order :: "LabOrder list \<Rightarrow> int \<Rightarrow> LabOrder option" where
  "get_lab_order rows lid = find (\<lambda>r. LabOrder.id r = lid) rows"

definition put_lab_order :: "LabOrder list \<Rightarrow> LabOrder \<Rightarrow> LabOrder list" where
  "put_lab_order rows r' = map (\<lambda>r. if LabOrder.id r = LabOrder.id r' then r' else r) rows"

section \<open>String formatting\<close>

text \<open>\<open>str\<close> of an integer, as an f-string prints it, and \<open>sep.join(xs)\<close>.\<close>

fun str_nat :: "nat \<Rightarrow> string" where
  "str_nat n =
     (if n < 10 then [''0123456789'' ! n]
      else str_nat (n div 10) @ [''0123456789'' ! (n mod 10)])"

declare str_nat.simps [simp del]

definition str_int :: "int \<Rightarrow> string" where
  "str_int i = (if i < 0 then CHR ''-'' # str_nat (nat (- i)) else str_nat (nat i))"

fun join :: "string \<Rightarrow> string list \<Rightarrow> string" where
  "join sep [] = []"
| "join sep [x] = x"
| "join sep (x # y # ys) = x @ sep @ join sep (y # ys)"

section \<open>Stock adjustment (routers/inventory.py, update_stock)\<close>

definition valid_operations :: "string list" where
  "valid_operations = [''increase'', ''decrease'']"

text \<open>
  The parameters \<open>product_id\<close> and \<open>quantity\<close> are written \<open>pid\<close> and \<open>qty\<close>, the
  longer names being column names of the data model.
  The handler returns the message and the new stock; the second component of the result
  is the database after the request. Every \<open>raise\<close> before the commit leaves the session
  without a write; a failing commit is rolled back.
\<close>

definition update_stock ::
  "'f env \<Rightarrow> 'f db \<Rightarrow> int \<Rightarrow> int \<Rightarrow> string \<Rightarrow> (exc + string \<times> int) \<times> 'f db" where
  "update_stock e d pid qty operation =
     (if operation \<notin> set valid_operations then
        (Inl (HTTPException HTTP_400_BAD_REQUEST
               (''Invalid operation. Must be one of: '' @ join '', '' valid_operations)), d)
      else case get_product (products d) pid of
        None \<Rightarrow> (Inl (HTTPException HTTP_404_NOT_FOUND ''Product not found''), d)
      | Some db_product \<Rightarrow>
          if operation = ''decrease'' \<and> Product.stock db_product < qty then
            (Inl (HTTPException HTTP_400_BAD_REQUEST ''Insufficient stock''), d)
          else
            let db_product1 =
                  (if operation = ''increase''
                   then db_product\<lparr>Product.stock := Product.stock db_product + qty\<rparr>
                   else db_product\<lparr>Product.stock := Product.stock db_product - qty\<rparr>);
                db_product2 = db_product1\<lparr>Product.updated_at := utcnow e\<rparr>
            in case storage_error e of
                 Some msg \<Rightarrow> (Inl (HTTPException HTTP_400_BAD_REQUEST msg), d)
               | None \<Rightarrow>
                   (Inr (''Stock updated successfully'', Product.stock db_product2),
                    d\<lparr>products := put_product (products d) db_product2\<rparr>))"

section \<open>Product update (routers/inventory.py, update_product)\<close>

text \<open>
  The loop over \<open>product_update.dict().items()\<close> assigns the four fields of the payload,
  the stock among them, as they come.
\<close>

definition update_product ::
  "'f env \<Rightarrow> 'f db \<Rightarrow> int \<Rightarrow> 'f ProductCreate \<Rightarrow> (exc + 'f Product) \<times> 'f db" where
  "update_product e d pid product_update =
     (case get_product (products d) pid of
        None \<Rightarrow> (Inl (HTTPException HTTP_404_NOT_FOUND ''Product not found''), d)
      | Some db_product \<Rightarrow>
          if ProductCreate.name product_update \<noteq> Product.name db_product
             \<and> get_product_by_name (products d) (ProductCreate.name product_update) \<noteq> None
          then (Inl (HTTPException HTTP_400_BAD_REQUEST
                      ''Product with this name already exists''), d)
          else
            let db_product1 = db_product
                  \<lparr>Product.name := ProductCreate.name product_update,
                   Product.description := ProductCreate.description product_update,
                   Product.price := ProductCreate.price product_update,
                   Product.stock := ProductCreate.stock product_update,
                   Product.updated_at := utcnow e\<rparr>
            in case storage_error e of
                 Some msg \<Rightarrow> (Inl (HTTPException HTTP_400_BAD_REQUEST msg), d)
               | None \<Rightarrow>
                   (Inr db_product1, d\<lparr>products := put_product (products d) db_product1\<rparr>))"

section \<open>Order creation (routers/pos.py, create_order)\<close>

text \<open>
  The \<open>for\<close> loop over \<open>order.items\<close>. Its state is the session's working copy of the
  product rows (a product read twice is the same object, so a later line sees the stock an
  earlier line left), the running \<open>total_amount\<close> (written \<open>acc\<close>) and the list \<open>order_products\<close>,
  kept as the ids of the products appended. A \<open>raise\<close> leaves the loop with the exception.
\<close>

fun process_items ::
  "'f env \<Rightarrow> 'f Product list \<Rightarrow> OrderItemBase list \<Rightarrow> 'f \<Rightarrow> int list
     \<Rightarrow> exc + 'f Product list \<times> 'f \<times> int list" where
  "process_items e rows [] acc order_products =
     Inr (rows, acc, order_products)"
| "process_items e rows (item # rest) acc order_products =
     (case get_product rows (OrderItemBase.product_id item) of
        None \<Rightarrow>
          Inl (HTTPException HTTP_404_NOT_FOUND
                (''Product with id '' @ str_int (OrderItemBase.product_id item) @ '' not found''))
      | Some product \<Rightarrow>
          if Product.stock product < OrderItemBase.quantity item then
            Inl (HTTPException HTTP_400_BAD_REQUEST
                  (''Insufficient stock for product '' @ Product.name product))
          else
            process_items e
              (put_product rows
                 (product\<lparr>Product.stock := Product.stock product - OrderItemBase.quantity item\<rparr>))
              rest
              (fadd e acc
                 (fmul_int e (Product.price product) (OrderItemBase.quantity item)))
              (order_products @ [Product.id product]))"

text \<open>
  The rows of \<open>order_items\<close> that the flush writes for \<open>products=order_products\<close>: one per
  element of the list, holding the two foreign keys.
\<close>

definition association_rows :: "int \<Rightarrow> int list \<Rightarrow> 'f order_items list" where
  "association_rows oid order_products =
     map (\<lambda>pid. \<lparr>order_items.order_id = oid, order_items.product_id = pid,
                 order_items.quantity = None, order_items.price_at_time = None\<rparr>)
       order_products"

text \<open>\<open>Prescription(order_id=db_order.id, **order.prescription.dict())\<close>\<close>

definition new_prescription :: "'f env \<Rightarrow> int \<Rightarrow> PrescriptionCreate \<Rightarrow> Prescription" where
  "new_prescription e oid payload =
     PrescriptionCreate.extend payload
       (Prescription.fields (new_prescription_id e) oid (utcnow e) (utcnow e))"

text \<open>
  The whole body is inside \<open>try\<close>, and the handler is \<open>except Exception\<close>: it catches the
  \<open>HTTPException\<close>s the loop raises as well as a failure of flush or commit, rolls the
  session back and raises a new \<open>HTTPException\<close> with status 400 and detail \<open>str(e)\<close>.
  Total starts as the integer \<open>0\<close>; the order is built without a \<open>user_id\<close>.
  The result is the order with its prescription, and the database after the request.
\<close>

definition create_order ::
  "'f env \<Rightarrow> 'f db \<Rightarrow> OrderCreate
     \<Rightarrow> (exc + 'f Order \<times> Prescription option) \<times> 'f db" where
  "create_order e d order =
     (case process_items e (products d) (items order) (fzero e) [] of
        Inl ex \<Rightarrow> (Inl (HTTPException HTTP_400_BAD_REQUEST (exc_str e ex)), d)
      | Inr (rows, acc, order_products) \<Rightarrow>
          (case storage_error e of
             Some msg \<Rightarrow> (Inl (HTTPException HTTP_400_BAD_REQUEST msg), d)
           | None \<Rightarrow>
               let db_order = \<lparr>Order.id = new_order_id e, Order.user_id = None,
                                Order.total_amount = acc, Order.status = ''pending'',
                                Order.created_at = utcnow e, Order.updated_at = utcnow e\<rparr>;
                   rx = map_option (new_prescription e (Order.id db_order)) (prescription order)
               in (Inr (db_order, rx),
                   d\<lparr>products := rows,
                     orders := orders d @ [db_order],
                     order_item_rows :=
                       order_item_rows d @ association_rows (Order.id db_order) order_products,
                     prescriptions := prescriptions d @ (case rx of None \<Rightarrow> [] | Some r \<Rightarrow> [r])\<rparr>)))"

section \<open>The route of order creation (routers/pos.py, the decorator of create_order)\<close>

text \<open>
  The route is declared with \<open>response_model=OrderResponse\<close>: the framework reads the
  fields of the response model off the object the handler returns and validates them. In
  \<open>OrderResponse\<close> the field \<open>user_id\<close> is a required \<open>int\<close>, so an order whose \<open>user_id\<close> is
  NULL fails the validation, with the list of the fields at fault; every other field of the
  model has a value of its type in every order and prescription of this data model. The
  validation runs after the handler has returned, that is after its commit. An exception
  that is not an \<open>HTTPException\<close> is answered with status 500.
\<close>

datatype route_error =
    Raised exc
  | ResponseValidationError "string list"

datatype 'f OrderResponse =
  OrderResponse int int 'f string nat nat "Prescription option"

text \<open>The fields of \<open>OrderResponse\<close>, in the order models.py declares them.\<close>

definition serialize_response ::
  "'f Order \<Rightarrow> Prescription option \<Rightarrow> route_error + 'f OrderResponse" where
  "serialize_response db_order rx =
     (case Order.user_id db_order of
        None \<Rightarrow> Inl (ResponseValidationError [''user_id''])
      | Some u \<Rightarrow>
          Inr (OrderResponse (Order.id db_order) u (Order.total_amount db_order)
                 (Order.status db_order) (Order.created_at db_order)
                 (Order.updated_at db_order) rx))"

definition post_orders ::
  "'f env \<Rightarrow> 'f db \<Rightarrow> OrderCreate \<Rightarrow> (route_error + 'f OrderResponse) \<times> 'f db" where
  "post_orders e d order =
     (case create_order e d order of
        (Inl ex, d') \<Rightarrow> (Inl (Raised ex), d')
      | (Inr (db_order, rx), d') \<Rightarrow> (serialize_response db_order rx, d'))"

definition response_status :: "route_error \<Rightarrow> int" where
  "response_status err =
     (case err of
        Raised (HTTPException code msg) \<Rightarrow> code
      | Raised (AttributeError t a) \<Rightarrow> 500
      | ResponseValidationError missing \<Rightarrow> 500)"

section \<open>Status updates (routers/pos.py, routers/lab_orders.py)\<close>

text \<open>
  In both handlers the parameter \<open>status\<close> is the string of the request, so each
  \<open>raise HTTPException(status_code=status.HTTP_..., ...)\<close> of the body fails while its
  argument is evaluated, with \<open>AttributeError\<close>; that holds for the handler of a failed
  commit too, after its rollback. The parameter is written \<open>new_status\<close>.
\<close>

definition order_valid_statuses :: "string list" where
  "order_valid_statuses = [''pending'', ''completed'', ''cancelled'']"

definition update_order_status ::
  "'f env \<Rightarrow> 'f db \<Rightarrow> int \<Rightarrow> string \<Rightarrow> (exc + string) \<times> 'f db" where
  "update_order_status e d oid new_status =
     (if new_status \<notin> set order_valid_statuses then
        (Inl (AttributeError ''str'' ''HTTP_400_BAD_REQUEST''), d)
      else case get_order (orders d) oid of
        None \<Rightarrow> (Inl (AttributeError ''str'' ''HTTP_404_NOT_FOUND''), d)
      | Some order \<Rightarrow>
          let order1 = order\<lparr>Order.status := new_status, Order.updated_at := utcnow e\<rparr>
          in case storage_error e of
               Some msg \<Rightarrow> (Inl (AttributeError ''str'' ''HTTP_400_BAD_REQUEST''), d)
             | None \<Rightarrow>
                 (Inr ''Order status updated successfully'',
                  d\<lparr>orders := put_order (orders d) order1\<rparr>))"

definition lab_valid_statuses :: "string list" where
  "lab_valid_statuses = [''pending'', ''in-progress'', ''completed'', ''cancelled'']"

definition update_lab_order_status ::
  "'f env \<Rightarrow> 'f db \<Rightarrow> int \<Rightarrow> string \<Rightarrow> (exc + string) \<times> 'f db" where
  "update_lab_order_status e d lid new_status =
     (if new_status \<notin> set lab_valid_statuses then
        (Inl (AttributeError ''str'' ''HTTP_400_BAD_REQUEST''), d)
      else case get_lab_order (lab_orders d) lid of
        None \<Rightarrow> (Inl (AttributeError ''str'' ''HTTP_404_NOT_FOUND''), d)
      | Some lab_order \<Rightarrow>
          let lab_order1 = lab_order\<lparr>LabOrder.status := new_status,
                                      LabOrder.updated_at := utcnow e\<rparr>
          in case storage_error e of
               Some msg \<Rightarrow> (Inl (AttributeError ''str'' ''HTTP_400_BAD_REQUEST''), d)
             | None \<Rightarrow>
                 (Inr ''Lab order status updated successfully'',
                  d\<lparr>lab_orders := put_lab_order (lab_orders d) lab_order1\<rparr>))"

section \<open>Sequences of requests\<close>

text \<open>
  The three operations that write a product's stock, as requests, each served in its own
  environment; \<open>run\<close> serves a list of them one after the other, every request starting
  from the database the one before it left.
\<close>

datatype 'f request =
    CreateOrder OrderCreate
  | UpdateStock int int string
  | UpdateProduct int "'f ProductCreate"

definition handle :: "'f env \<Rightarrow> 'f db \<Rightarrow> 'f request \<Rightarrow> 'f db" where
  "handle e d r =
     (case r of
        CreateOrder order \<Rightarrow> snd (create_order e d order)
      | UpdateStock pid qty operation \<Rightarrow> snd (update_stock e d pid qty operation)
      | UpdateProduct pid product_update \<Rightarrow> snd (update_product e d pid product_update))"

fun run :: "'f db \<Rightarrow> ('f env \<times> 'f request) list \<Rightarrow> 'f db" where
  "run d [] = d"
| "run d ((e, r) # rest) = run (handle e d r) rest"

section \<open>Notions the properties are stated with\<close>

text \<open>Every product row has a stock of at least zero.\<close>

definition stock_nonneg :: "'f db \<Rightarrow> bool" where
  "stock_nonneg d = list_all (\<lambda>p. 0 \<le> Product.stock p) (products d)"

text \<open>
  The requests under which the stock stays non-negative: any order creation, a stock
  adjustment that is a decrease or carries a non-negative quantity, and a product update
  that supplies a non-negative stock.
\<close>

definition sign_checked :: "'f request \<Rightarrow> bool" where
  "sign_checked r =
     (case r of
        CreateOrder order \<Rightarrow> True
      | UpdateStock pid qty operation \<Rightarrow> operation = ''decrease'' \<or> 0 \<le> qty
      | UpdateProduct pid product_update \<Rightarrow> 0 \<le> ProductCreate.stock product_update)"

text \<open>The quantity that the lines \<open>its\<close> request of product \<open>pid\<close>, added up.\<close>

definition ordered_for :: "int \<Rightarrow> OrderItemBase list \<Rightarrow> int" where
  "ordered_for pid its =
     sum_list (map OrderItemBase.quantity
       (filter (\<lambda>it. OrderItemBase.product_id it = pid) its))"

text \<open>
  Line \<open>i\<close> of a request is in stock over the product rows \<open>rows\<close>: its product exists and
  its quantity is at most the product's current stock, which is the stock in \<open>rows\<close> less
  what the lines before it request of the same product.
\<close>

definition line_ok :: "'f Product list \<Rightarrow> OrderItemBase list \<Rightarrow> nat \<Rightarrow> bool" where
  "line_ok rows its i =
     (case get_product rows (OrderItemBase.product_id (its ! i)) of
        None \<Rightarrow> False
      | Some p \<Rightarrow>
          OrderItemBase.quantity (its ! i)
            \<le> Product.stock p - ordered_for (OrderItemBase.product_id (its ! i)) (take i its))"

text \<open>
  The sum over the lines, in their order, of price times quantity, the price read from
  \<open>rows\<close>, starting from \<open>a0\<close>.
\<close>

definition line_sum :: "'f env \<Rightarrow> 'f Product list \<Rightarrow> 'f \<Rightarrow> OrderItemBase list \<Rightarrow> 'f" where
  "line_sum e rows a0 its =
     foldl (\<lambda>a it. case get_product rows (OrderItemBase.product_id it) of
                      None \<Rightarrow> a
                    | Some p \<Rightarrow> fadd e a (fmul_int e (Product.price p) (OrderItemBase.quantity it)))
       a0 its"

section \<open>A concrete store for worked examples\<close>

text \<open>
  The scenario of the specification: product A with stock 5 and price 10.0. The example
  environment computes with exact real arithmetic, which agrees with double precision on
  the small integers used here, and prints a caught \<open>HTTPException\<close> as
  \<open>status_code: detail\<close>.
\<close>

definition example_exc_str :: "exc \<Rightarrow> string" where
  "example_exc_str ex =
     (case ex of HTTPException s d \<Rightarrow> str_int s @ '': '' @ d | AttributeError t a \<Rightarrow> a)"

definition example_env :: "real env" where
  "example_env =
     \<lparr>fzero = 0, fadd = (+), fmul_int = (\<lambda>x n. x * of_int n), exc_str = example_exc_str,
      utcnow = 100, storage_error = None, new_order_id = 1, new_prescription_id = 1\<rparr>"

definition product_A :: "real Product" where
  "product_A =
     \<lparr>Product.id = 1, name = ''A'', description = None, price = 10, stock = 5,
      created_at = 0, updated_at = 0\<rparr>"

definition example_db :: "real db" where
  "example_db =
     \<lparr>products = [product_A], orders = [], order_item_rows = [], prescriptions = [],
      lab_orders = []\<rparr>"

definition line :: "int \<Rightarrow> int \<Rightarrow> OrderItemBase" where
  "line pid qty = \<lparr>OrderItemBase.product_id = pid, OrderItemBase.quantity = qty\<rparr>"

definition completed_order :: "real Order" where
  "completed_order =
     \<lparr>Order.id = 1, user_id = None, total_amount = 30, status = ''completed'',
      created_at = 0, updated_at = 0\<rparr>"

definition orders_db :: "real db" where
  "orders_db = example_db\<lparr>orders := [completed_order]\<rparr>"

definition lab_order_1 :: LabOrder where
  "lab_order_1 =
     \<lparr>LabOrder.id = 1, prescription_id = 1, status = ''pending'', notes_ = None,
      created_at = 0, updated_at = 0\<rparr>"

definition lab_db :: "real db" where
  "lab_db = example_db\<lparr>lab_orders := [lab_order_1]\<rparr>"


section \<open>Facts about the row store\<close>

lemma get_product_id: "get_product rows pid = Some p \<Longrightarrow> Product.id p = pid"
  by (auto simp: get_product_def find_Some_iff)

lemma get_product_mem: "get_product rows pid = Some p \<Longrightarrow> p \<in> set rows"
  by (auto simp: get_product_def find_Some_iff)

lemma get_product_put:
  "get_product (put_product rows p) pid =
     (if pid = Product.id p then (case get_product rows pid of None \<Rightarrow> None | Some _ \<Rightarrow> Some p)
      else get_product rows pid)"
  by (induction rows) (auto simp: get_product_def put_product_def)

section \<open>Facts about the order loop\<close>

lemma ordered_for_Nil: "ordered_for k [] = 0"
  by (simp add: ordered_for_def)

lemma ordered_for_Cons:
  "ordered_for k (it # its) =
     (if OrderItemBase.product_id it = k then OrderItemBase.quantity it else 0) + ordered_for k its"
  by (simp add: ordered_for_def)

lemma line_ok_0:
  "line_ok rows (it # its) 0 =
     (case get_product rows (OrderItemBase.product_id it) of
        None \<Rightarrow> False
      | Some p \<Rightarrow> OrderItemBase.quantity it \<le> Product.stock p)"
  by (simp add: line_ok_def ordered_for_Nil split: option.splits)

lemma line_ok_Suc:
  assumes "get_product rows (OrderItemBase.product_id it) = Some p"
  shows "line_ok (put_product rows (p\<lparr>Product.stock := Product.stock p - OrderItemBase.quantity it\<rparr>)) its j
           = line_ok rows (it # its) (Suc j)"
proof -
  have pid: "Product.id p = OrderItemBase.product_id it"
    using assms by (rule get_product_id)
  show ?thesis
    using assms pid
    by (auto simp: line_ok_def get_product_put ordered_for_Cons split: option.splits)
qed

lemma line_sum_Nil: "line_sum e rows a [] = a"
  by (simp add: line_sum_def)

lemma line_sum_Cons:
  "line_sum e rows a (it # its) =
     line_sum e rows
       (case get_product rows (OrderItemBase.product_id it) of
          None \<Rightarrow> a
        | Some p \<Rightarrow> fadd e a (fmul_int e (Product.price p) (OrderItemBase.quantity it)))
       its"
  by (simp add: line_sum_def)

lemma line_sum_put:
  assumes "get_product rows (Product.id p) = Some p"
  shows "line_sum e (put_product rows (p\<lparr>Product.stock := s\<rparr>)) a its = line_sum e rows a its"
proof (induction its arbitrary: a)
  case Nil
  show ?case by (simp add: line_sum_Nil)
next
  case (Cons it its)
  show ?case
    using assms by (auto simp: line_sum_Cons Cons.IH get_product_put split: option.splits)
qed

lemma process_items_Inr:
  "(\<forall>i<length its. line_ok rows its i) \<Longrightarrow>
   \<exists>rows'. process_items e rows its a ops
              = Inr (rows', line_sum e rows a its, ops @ map OrderItemBase.product_id its)
         \<and> (\<forall>k. get_product rows' k
                  = map_option (\<lambda>p. p\<lparr>Product.stock := Product.stock p - ordered_for k its\<rparr>)
                      (get_product rows k))"
proof (induction its arbitrary: rows a ops)
  case Nil
  show ?case by (simp add: line_sum_Nil ordered_for_Nil option.map_ident)
next
  case (Cons it its)
  from Cons.prems have "line_ok rows (it # its) 0" by auto
  then obtain p where p: "get_product rows (OrderItemBase.product_id it) = Some p"
    and q: "OrderItemBase.quantity it \<le> Product.stock p"
    by (auto simp: line_ok_0 split: option.splits)
  have pid: "Product.id p = OrderItemBase.product_id it" using p by (rule get_product_id)
  let ?p1 = "p\<lparr>Product.stock := Product.stock p - OrderItemBase.quantity it\<rparr>"
  let ?rows1 = "put_product rows ?p1"
  let ?a1 = "fadd e a (fmul_int e (Product.price p) (OrderItemBase.quantity it))"
  have rest: "\<forall>j<length its. line_ok ?rows1 its j"
  proof (intro allI impI)
    fix j assume "j < length its"
    then have "line_ok rows (it # its) (Suc j)" using Cons.prems by auto
    then show "line_ok ?rows1 its j" by (simp add: line_ok_Suc [OF p])
  qed
  from Cons.IH [OF rest, of ?a1 "ops @ [Product.id p]"]
  obtain rows' where
    run: "process_items e ?rows1 its ?a1 (ops @ [Product.id p])
            = Inr (rows', line_sum e ?rows1 ?a1 its,
                   (ops @ [Product.id p]) @ map OrderItemBase.product_id its)"
    and st: "\<And>k. get_product rows' k
                  = map_option (\<lambda>p. p\<lparr>Product.stock := Product.stock p - ordered_for k its\<rparr>)
                      (get_product ?rows1 k)"
    by blast
  have p': "get_product rows (Product.id p) = Some p" using p pid by simp
  have sum: "line_sum e ?rows1 ?a1 its = line_sum e rows a (it # its)"
    by (simp add: line_sum_put [OF p'] line_sum_Cons p)
  have step: "process_items e rows (it # its) a ops
                = process_items e ?rows1 its ?a1 (ops @ [Product.id p])"
    using p q by simp
  have "process_items e rows (it # its) a ops
          = Inr (rows', line_sum e rows a (it # its),
                 ops @ map OrderItemBase.product_id (it # its))"
    using step run sum pid by simp
  moreover have "\<forall>k. get_product rows' k
                  = map_option (\<lambda>p. p\<lparr>Product.stock := Product.stock p - ordered_for k (it # its)\<rparr>)
                      (get_product rows k)"
  proof
    fix k
    show "get_product rows' k
            = map_option (\<lambda>p. p\<lparr>Product.stock := Product.stock p - ordered_for k (it # its)\<rparr>)
                (get_product rows k)"
      using p pid by (auto simp: st get_product_put ordered_for_Cons algebra_simps split: option.splits)
  qed
  ultimately show ?case by blast
qed

lemma process_items_Inl:
  "i < length its \<Longrightarrow> \<not> line_ok rows its i \<Longrightarrow>
   \<exists>ex. process_items e rows its a ops = Inl ex"
proof (induction its arbitrary: rows i a ops)
  case Nil
  then show ?case by simp
next
  case (Cons it its)
  show ?case
  proof (cases "get_product rows (OrderItemBase.product_id it)")
    case None
    then show ?thesis by simp
  next
    case (Some p)
    show ?thesis
    proof (cases "Product.stock p < OrderItemBase.quantity it")
      case True
      then show ?thesis using Some by simp
    next
      case False
      then have ok0: "line_ok rows (it # its) 0" using Some by (simp add: line_ok_0)
      then obtain j where i: "i = Suc j" using Cons.prems(2) by (cases i) auto
      have "\<not> line_ok (put_product rows (p\<lparr>Product.stock := Product.stock p - OrderItemBase.quantity it\<rparr>)) its j"
        using Cons.prems(2) i by (simp add: line_ok_Suc [OF Some])
      moreover have "j < length its" using Cons.prems(1) i by simp
      ultimately show ?thesis using Cons.IH Some False by simp
    qed
  qed
qed

lemma create_order_Inl:
  "create_order e d order = (Inl ex, d') \<Longrightarrow> d' = d"
  by (auto simp: create_order_def Let_def split: sum.splits option.splits prod.splits)

lemma create_order_fails:
  assumes "i < length (items order)" and "\<not> line_ok (products d) (items order) i"
  shows "\<exists>ex. create_order e d order = (Inl ex, d)"
proof -
  from process_items_Inl [OF assms]
  obtain ex where "process_items e (products d) (items order) (fzero e) [] = Inl ex"
    by blast
  then show ?thesis by (simp add: create_order_def)
qed

lemma str_int_400: "str_int 400 = ''400''"
  by (simp add: str_int_def str_nat.simps)

lemma str_int_404: "str_int 404 = ''404''"
  by (simp add: str_int_def str_nat.simps)

lemma str_int_999: "str_int 999 = ''999''"
  by (simp add: str_int_def str_nat.simps)

lemmas example_defs =
  example_env_def example_db_def product_A_def line_def example_exc_str_def
  get_product_def put_product_def association_rows_def

section \<open>Facts about stock signs and order rows\<close>

lemma get_order_id: "get_order rows oid = Some r \<Longrightarrow> Order.id r = oid"
  by (auto simp: get_order_def find_Some_iff)

lemma get_order_put:
  "get_order (put_order rows r) oid =
     (if oid = Order.id r then (case get_order rows oid of None \<Rightarrow> None | Some _ \<Rightarrow> Some r)
      else get_order rows oid)"
  by (induction rows) (auto simp: get_order_def put_order_def)

lemma list_all_put_product:
  "list_all P rows \<Longrightarrow> P p \<Longrightarrow> list_all P (put_product rows p)"
  by (induction rows) (auto simp: put_product_def)

lemma process_items_nonneg:
  "list_all (\<lambda>p. 0 \<le> Product.stock p) rows \<Longrightarrow>
   process_items e rows its a ops = Inr (rows', a', ops') \<Longrightarrow>
   list_all (\<lambda>p. 0 \<le> Product.stock p) rows'"
proof (induction its arbitrary: rows a ops)
  case Nil
  then show ?case by simp
next
  case (Cons it its)
  from Cons.prems(2) obtain p where
    p: "get_product rows (OrderItemBase.product_id it) = Some p"
    and q: "\<not> Product.stock p < OrderItemBase.quantity it"
    and run: "process_items e
                (put_product rows (p\<lparr>Product.stock := Product.stock p - OrderItemBase.quantity it\<rparr>))
                its (fadd e a (fmul_int e (Product.price p) (OrderItemBase.quantity it)))
                (ops @ [Product.id p]) = Inr (rows', a', ops')"
    by (auto split: option.splits if_splits)
  have "list_all (\<lambda>p. 0 \<le> Product.stock p)
          (put_product rows (p\<lparr>Product.stock := Product.stock p - OrderItemBase.quantity it\<rparr>))"
    using Cons.prems(1) q by (intro list_all_put_product) simp_all
  then show ?case using run by (rule Cons.IH)
qed

lemma create_order_nonneg:
  "stock_nonneg d \<Longrightarrow> stock_nonneg (snd (create_order e d order))"
  by (auto simp: create_order_def stock_nonneg_def Let_def
           split: sum.splits option.splits prod.splits dest: process_items_nonneg)

lemma update_stock_nonneg:
  assumes "stock_nonneg d" and "operation = ''decrease'' \<or> 0 \<le> qty"
  shows "stock_nonneg (snd (update_stock e d pid qty operation))"
proof (cases "get_product (products d) pid")
  case None
  then show ?thesis using assms(1) by (simp add: update_stock_def)
next
  case (Some p)
  then have "p \<in> set (products d)" by (rule get_product_mem)
  then have p0: "0 \<le> Product.stock p"
    using assms(1) by (simp add: stock_nonneg_def list_all_iff)
  show ?thesis
    using assms Some p0
    by (auto simp: update_stock_def stock_nonneg_def Let_def valid_operations_def
             intro!: list_all_put_product split: option.splits)
qed

lemma update_product_nonneg:
  assumes "stock_nonneg d" and "0 \<le> ProductCreate.stock product_update"
  shows "stock_nonneg (snd (update_product e d pid product_update))"
  using assms
  by (auto simp: update_product_def stock_nonneg_def Let_def
           intro!: list_all_put_product split: option.splits)

lemma handle_nonneg:
  "stock_nonneg d \<Longrightarrow> sign_checked r \<Longrightarrow> stock_nonneg (handle e d r)"
  by (cases r)
     (simp_all add: handle_def sign_checked_def create_order_nonneg update_stock_nonneg
        update_product_nonneg)

lemma run_nonneg:
  "stock_nonneg d \<Longrightarrow> list_all (\<lambda>(e, r). sign_checked r) reqs \<Longrightarrow> stock_nonneg (run d reqs)"
  by (induction reqs arbitrary: d) (auto simp: handle_nonneg)

section \<open>Stock adjustment\<close>

text \<open>
  Claim C6. For an existing product, \<open>update_stock\<close> with "decrease" fails with status 400
  ("Insufficient stock") and leaves the database as it was whenever the new stock would be
  negative, and otherwise subtracts the quantity; with "increase" it adds the quantity; and
  whenever it succeeds, the stored product carries the new stock and the time of the
  request as its \<open>updated_at\<close>.
\<close>

theorem update_stock_adjusts:
  assumes "get_product (products d) pid = Some p"
  shows "(Product.stock p - qty < 0 \<longrightarrow>
            update_stock e d pid qty ''decrease''
              = (Inl (HTTPException HTTP_400_BAD_REQUEST ''Insufficient stock''), d))
       \<and> (\<not> Product.stock p - qty < 0 \<and> storage_error e = None \<longrightarrow>
            update_stock e d pid qty ''decrease''
              = (Inr (''Stock updated successfully'', Product.stock p - qty),
                 d\<lparr>products := put_product (products d)
                      (p\<lparr>Product.stock := Product.stock p - qty,
                         Product.updated_at := utcnow e\<rparr>)\<rparr>))
       \<and> (storage_error e = None \<longrightarrow>
            update_stock e d pid qty ''increase''
              = (Inr (''Stock updated successfully'', Product.stock p + qty),
                 d\<lparr>products := put_product (products d)
                      (p\<lparr>Product.stock := Product.stock p + qty,
                         Product.updated_at := utcnow e\<rparr>)\<rparr>))
       \<and> (\<forall>operation r d'. update_stock e d pid qty operation = (Inr r, d') \<longrightarrow>
            (\<exists>p'. get_product (products d') pid = Some p'
                 \<and> Product.updated_at p' = utcnow e
                 \<and> Product.stock p' = snd r
                 \<and> Product.stock p' = (if operation = ''increase'' then Product.stock p + qty
                                        else Product.stock p - qty)))"
proof (intro conjI allI impI)
  assume "Product.stock p - qty < 0"
  then show "update_stock e d pid qty ''decrease''
              = (Inl (HTTPException HTTP_400_BAD_REQUEST ''Insufficient stock''), d)"
    using assms by (simp add: update_stock_def valid_operations_def)
next
  assume "\<not> Product.stock p - qty < 0 \<and> storage_error e = None"
  then show "update_stock e d pid qty ''decrease''
              = (Inr (''Stock updated successfully'', Product.stock p - qty),
                 d\<lparr>products := put_product (products d)
                      (p\<lparr>Product.stock := Product.stock p - qty,
                         Product.updated_at := utcnow e\<rparr>)\<rparr>)"
    using assms by (simp add: update_stock_def valid_operations_def)
next
  assume "storage_error e = None"
  then show "update_stock e d pid qty ''increase''
              = (Inr (''Stock updated successfully'', Product.stock p + qty),
                 d\<lparr>products := put_product (products d)
                      (p\<lparr>Product.stock := Product.stock p + qty,
                         Product.updated_at := utcnow e\<rparr>)\<rparr>)"
    using assms by (simp add: update_stock_def valid_operations_def)
next
  fix operation r d'
  assume ok: "update_stock e d pid qty operation = (Inr r, d')"
  have pid: "Product.id p = pid" using assms by (rule get_product_id)
  from ok assms pid
  show "\<exists>p'. get_product (products d') pid = Some p'
                 \<and> Product.updated_at p' = utcnow e
                 \<and> Product.stock p' = snd r
                 \<and> Product.stock p' = (if operation = ''increase'' then Product.stock p + qty
                                        else Product.stock p - qty)"
    by (auto simp: update_stock_def Let_def get_product_put split: if_splits option.splits)
qed

theorem update_stock_adjusts_witness:
  "get_product (products example_db) 1 = Some product_A
   \<and> update_stock example_env example_db 1 7 ''decrease''
       = (Inl (HTTPException HTTP_400_BAD_REQUEST ''Insufficient stock''), example_db)
   \<and> update_stock example_env example_db 1 3 ''decrease''
       = (Inr (''Stock updated successfully'', 2),
          example_db\<lparr>products :=
            [product_A\<lparr>Product.stock := 2, Product.updated_at := 100\<rparr>]\<rparr>)
   \<and> update_stock example_env example_db 1 4 ''increase''
       = (Inr (''Stock updated successfully'', 9),
          example_db\<lparr>products :=
            [product_A\<lparr>Product.stock := 9, Product.updated_at := 100\<rparr>]\<rparr>)"
proof -
  have h: "get_product (products example_db) 1 = Some product_A"
    by (simp add: example_db_def product_A_def get_product_def)
  have s: "storage_error example_env = None" by (simp add: example_env_def)
  show ?thesis
    using h s update_stock_adjusts [OF h, of 7 example_env]
      update_stock_adjusts [OF h, of 3 example_env]
      update_stock_adjusts [OF h, of 4 example_env]
    by (simp add: example_db_def product_A_def put_product_def example_env_def)
qed

section \<open>Order creation\<close>

text \<open>
  Claim C1. An order-creation request that fails leaves no side effect: the database after
  the failed attempt is the database before it (every stock as it was, no order row), and
  the same payload sent again meets the same state and fails the same way. The request
  fails whenever a line references a product that is absent, and whenever a line asks for
  more than its product's current stock (the stored stock less what earlier lines of the
  request take of the same product).
\<close>

theorem create_order_failure_atomic:
  "(\<forall>ex d'. create_order e d order = (Inl ex, d') \<longrightarrow>
       d' = d \<and> create_order e d' order = (Inl ex, d'))
   \<and> ((\<exists>i<length (items order).
          get_product (products d) (OrderItemBase.product_id (items order ! i)) = None)
        \<longrightarrow> (\<exists>ex. create_order e d order = (Inl ex, d)))
   \<and> ((\<exists>i<length (items order). \<exists>p.
          get_product (products d) (OrderItemBase.product_id (items order ! i)) = Some p
          \<and> Product.stock p
               - ordered_for (OrderItemBase.product_id (items order ! i)) (take i (items order))
             < OrderItemBase.quantity (items order ! i))
        \<longrightarrow> (\<exists>ex. create_order e d order = (Inl ex, d)))"
proof (intro conjI allI impI)
  fix ex d'
  assume f: "create_order e d order = (Inl ex, d')"
  then have "d' = d" by (rule create_order_Inl)
  with f show "d' = d" and "create_order e d' order = (Inl ex, d')" by simp_all
next
  assume "\<exists>i<length (items order).
          get_product (products d) (OrderItemBase.product_id (items order ! i)) = None"
  then obtain i where "i < length (items order)" "\<not> line_ok (products d) (items order) i"
    by (auto simp: line_ok_def)
  then show "\<exists>ex. create_order e d order = (Inl ex, d)" by (rule create_order_fails)
next
  assume "\<exists>i<length (items order). \<exists>p.
          get_product (products d) (OrderItemBase.product_id (items order ! i)) = Some p
          \<and> Product.stock p
               - ordered_for (OrderItemBase.product_id (items order ! i)) (take i (items order))
             < OrderItemBase.quantity (items order ! i)"
  then obtain i where "i < length (items order)" "\<not> line_ok (products d) (items order) i"
    by (auto simp: line_ok_def)
  then show "\<exists>ex. create_order e d order = (Inl ex, d)" by (rule create_order_fails)
qed

theorem create_order_failure_atomic_witness:
  "create_order example_env example_db \<lparr>items = [line 1 6], prescription = None\<rparr>
     = (Inl (HTTPException HTTP_400_BAD_REQUEST ''400: Insufficient stock for product A''),
        example_db)
   \<and> create_order example_env example_db \<lparr>items = [line 1 3, line 999 1], prescription = None\<rparr>
     = (Inl (HTTPException HTTP_400_BAD_REQUEST ''404: Product with id 999 not found''),
        example_db)"
  using create_order_failure_atomic
          [of example_env example_db "\<lparr>items = [line 1 6], prescription = None\<rparr>"]
        create_order_failure_atomic
          [of example_env example_db "\<lparr>items = [line 1 3, line 999 1], prescription = None\<rparr>"]
  by (simp add: create_order_def example_defs str_int_400 str_int_404 str_int_999)

text \<open>
  Claim C4. A request whose lines are all in stock (every product exists, every quantity is
  at most the product's current stock, which is the stored stock less what earlier lines
  of the request take of the same product) is to succeed and return the order. With flush
  and commit going through, the handler does its part: the order is stored with status
  "pending" and a total that is the sum over the lines, in order, of price times
  quantity, and the stock of every product is lower by the quantity requested of it. The
  route then validates the returned order against \<open>OrderResponse\<close>, where \<open>user_id\<close> is
  required and the order has none: the request ends in a validation error, status 500,
  after the commit, and no order is returned. In the scenario of the specification
  (stock 5, price 10.0, quantity 3) the stored total is 30.0 and the stock 2.
\<close>

theorem post_orders_commits_then_fails:
  assumes "\<forall>i<length (items order). line_ok (products d) (items order) i"
    and "storage_error e = None"
  shows "\<exists>ord d'.
           post_orders e d order = (Inl (ResponseValidationError [''user_id'']), d')
         \<and> response_status (ResponseValidationError [''user_id'']) = 500
         \<and> orders d' = orders d @ [ord]
         \<and> Order.status ord = ''pending''
         \<and> Order.total_amount ord = line_sum e (products d) (fzero e) (items order)
         \<and> (\<forall>k. map_option Product.stock (get_product (products d') k)
                  = map_option (\<lambda>p. Product.stock p - ordered_for k (items order))
                      (get_product (products d) k))"
proof -
  from process_items_Inr [OF assms(1), of e "fzero e" "[]"]
  obtain rows' where
    run: "process_items e (products d) (items order) (fzero e) []
            = Inr (rows', line_sum e (products d) (fzero e) (items order),
                   [] @ map OrderItemBase.product_id (items order))"
    and st: "\<forall>k. get_product rows' k
                  = map_option
                      (\<lambda>p. p\<lparr>Product.stock := Product.stock p - ordered_for k (items order)\<rparr>)
                      (get_product (products d) k)"
    by blast
  show ?thesis
    using run st assms(2)
    by (simp add: post_orders_def serialize_response_def response_status_def
          create_order_def Let_def option.map_comp comp_def)
qed

theorem post_orders_commits_then_fails_witness:
  "line_ok (products example_db) [line 1 3] 0
   \<and> storage_error example_env = None
   \<and> (\<exists>ord d'.
         post_orders example_env example_db \<lparr>items = [line 1 3], prescription = None\<rparr>
           = (Inl (ResponseValidationError [''user_id'']), d')
       \<and> orders d' = [ord]
       \<and> Order.status ord = ''pending''
       \<and> Order.total_amount ord = 30
       \<and> map_option Product.stock (get_product (products d') 1) = Some 2)"
proof -
  let ?order = "\<lparr>items = [line 1 3], prescription = None\<rparr>"
  have h: "\<forall>i<length (items ?order). line_ok (products example_db) (items ?order) i"
    by (simp add: line_ok_def ordered_for_def example_defs)
  have s: "storage_error example_env = None" by (simp add: example_env_def)
  have l: "line_sum example_env (products example_db) (fzero example_env) (items ?order) = 30"
    by (simp add: line_sum_def example_defs)
  have o: "map_option (\<lambda>p. Product.stock p - ordered_for 1 (items ?order))
             (get_product (products example_db) 1) = Some 2"
    by (simp add: ordered_for_def example_defs)
  have e: "orders example_db = []" by (simp add: example_db_def)
  from post_orders_commits_then_fails [OF h s] obtain ord d' where
    c: "post_orders example_env example_db ?order
          = (Inl (ResponseValidationError [''user_id'']), d')"
    and a: "orders d' = orders example_db @ [ord]"
    and p: "Order.status ord = ''pending''"
    and t: "Order.total_amount ord
              = line_sum example_env (products example_db) (fzero example_env) (items ?order)"
    and k: "\<forall>k. map_option Product.stock (get_product (products d') k)
                  = map_option (\<lambda>p. Product.stock p - ordered_for k (items ?order))
                      (get_product (products example_db) k)"
    by blast
  from spec [OF k, of 1] o
  have "map_option Product.stock (get_product (products d') 1) = Some 2"
    by (rule trans)
  with c a p t l e h s show ?thesis by auto
qed

text \<open>
  Claim C2. A request naming a product id that is not in the database is to fail with
  HTTP 404 and a detail naming the product, with no write. The code raises that
  \<open>HTTPException\<close> inside its own \<open>try\<close>, whose \<open>except Exception\<close> catches it: the
  caller receives status 400, the detail being \<open>str\<close> of the 404 exception. Evaluated for the
  scenario of the specification (product id 999 absent), in any environment: the status is
  400 and the database is unchanged.
\<close>

theorem missing_product_reported_as_400:
  "create_order e example_db \<lparr>items = [line 999 1], prescription = None\<rparr>
     = (Inl (HTTPException HTTP_400_BAD_REQUEST
              (exc_str e (HTTPException HTTP_404_NOT_FOUND ''Product with id 999 not found''))),
        example_db)"
  by (simp add: create_order_def example_defs str_int_999)

text \<open>
  Claim C3. The line items persisted for a new order are to record each line's quantity
  and the price at creation time. The code writes them through the relationship
  \<open>products=order_products\<close>, so each row of \<open>order_items\<close> holds the two foreign keys and
  NULL in \<open>quantity\<close> and \<open>price_at_time\<close>. Evaluated for the scenario of the
  specification: the order is created with total 30.0, and its one association row has
  neither quantity nor price.
\<close>

theorem association_rows_lack_quantity_and_price:
  "fst (create_order example_env example_db \<lparr>items = [line 1 3], prescription = None\<rparr>)
     = Inr (\<lparr>Order.id = 1, user_id = None, total_amount = 30, status = ''pending'',
              created_at = 100, updated_at = 100\<rparr>, None)
   \<and> order_item_rows
       (snd (create_order example_env example_db \<lparr>items = [line 1 3], prescription = None\<rparr>))
     = [\<lparr>order_items.order_id = 1, product_id = 1, quantity = None, price_at_time = None\<rparr>]"
  by (simp add: create_order_def Let_def example_defs)

text \<open>
  Claim C10. Every order that \<open>create_order\<close> persists has no owning user: the order it
  returns has \<open>user_id\<close> NULL, and that order is the row appended to the table of orders.
  No field of the request or of the environment enters \<open>user_id\<close>. (The response model
  \<open>OrderResponse\<close> declares \<open>user_id: int\<close>; the order is committed before the route
  validates the returned object against it.)
\<close>

theorem created_order_has_no_user:
  assumes "create_order e d order = (Inr (ord, rx), d')"
  shows "Order.user_id ord = None \<and> orders d' = orders d @ [ord]"
  using assms
  by (auto simp: create_order_def Let_def split: sum.splits option.splits prod.splits)

theorem created_order_has_no_user_witness:
  "\<exists>ord rx d'.
     create_order example_env example_db \<lparr>items = [line 1 3], prescription = None\<rparr>
       = (Inr (ord, rx), d')
     \<and> Order.user_id ord = None \<and> orders d' = orders example_db @ [ord]"
proof -
  obtain r d' where c: "create_order example_env example_db \<lparr>items = [line 1 3], prescription = None\<rparr> = (r, d')"
    by (cases "create_order example_env example_db \<lparr>items = [line 1 3], prescription = None\<rparr>")
  then obtain ord rx where r: "r = Inr (ord, rx)"
    by (auto simp: create_order_def Let_def example_defs)
  from created_order_has_no_user [OF c [unfolded r]] c r show ?thesis by blast
qed




section \<open>Stock never negative\<close>

text \<open>
  Claim C5, as amended. Product stock stays non-negative under any sequence of order
  creations, stock adjustments that are a "decrease" or carry a non-negative quantity,
  and product updates that supply a non-negative stock. A "decrease" that would drive the
  stock below zero, and an order with a line that is not in stock, are rejected with the
  database unchanged.
\<close>

theorem stock_stays_nonneg:
  assumes "stock_nonneg d" and "list_all (\<lambda>(e, r). sign_checked r) reqs"
  shows "stock_nonneg (run d reqs)
       \<and> (get_product (products d0) pid = Some p \<and> Product.stock p - qty < 0 \<longrightarrow>
            update_stock e0 d0 pid qty ''decrease''
              = (Inl (HTTPException HTTP_400_BAD_REQUEST ''Insufficient stock''), d0))
       \<and> (i < length (items order) \<and> \<not> line_ok (products d0) (items order) i \<longrightarrow>
            (\<exists>ex. create_order e0 d0 order = (Inl ex, d0)))"
proof (intro conjI impI)
  show "stock_nonneg (run d reqs)" using assms by (rule run_nonneg)
next
  assume "get_product (products d0) pid = Some p \<and> Product.stock p - qty < 0"
  then show "update_stock e0 d0 pid qty ''decrease''
              = (Inl (HTTPException HTTP_400_BAD_REQUEST ''Insufficient stock''), d0)"
    by (simp add: update_stock_def valid_operations_def)
next
  assume "i < length (items order) \<and> \<not> line_ok (products d0) (items order) i"
  then show "\<exists>ex. create_order e0 d0 order = (Inl ex, d0)"
    by (blast intro: create_order_fails)
qed

theorem stock_stays_nonneg_witness:
  "stock_nonneg example_db
   \<and> list_all (\<lambda>(e, r). sign_checked r)
       [(example_env, CreateOrder \<lparr>items = [line 1 3], prescription = None\<rparr>),
        (example_env, UpdateStock 1 2 ''decrease''),
        (example_env, UpdateStock 1 4 ''increase''),
        (example_env,
         UpdateProduct 1 \<lparr>ProductCreate.name = ''A'', description = None, price = 12, stock = 7\<rparr>)]
   \<and> stock_nonneg
       (run example_db
          [(example_env, CreateOrder \<lparr>items = [line 1 3], prescription = None\<rparr>),
           (example_env, UpdateStock 1 2 ''decrease''),
           (example_env, UpdateStock 1 4 ''increase''),
           (example_env,
            UpdateProduct 1 \<lparr>ProductCreate.name = ''A'', description = None, price = 12, stock = 7\<rparr>)])
   \<and> update_stock example_env example_db 1 6 ''decrease''
       = (Inl (HTTPException HTTP_400_BAD_REQUEST ''Insufficient stock''), example_db)
   \<and> (\<exists>ex. create_order example_env example_db \<lparr>items = [line 1 6], prescription = None\<rparr>
              = (Inl ex, example_db))"
proof -
  let ?reqs = "[(example_env, CreateOrder \<lparr>items = [line 1 3], prescription = None\<rparr>),
        (example_env, UpdateStock 1 2 ''decrease''),
        (example_env, UpdateStock 1 4 ''increase''),
        (example_env,
         UpdateProduct 1 \<lparr>ProductCreate.name = ''A'', description = None, price = 12, stock = 7\<rparr>)]"
  have h1: "stock_nonneg example_db" by (simp add: stock_nonneg_def example_defs)
  have h2: "list_all (\<lambda>(e, r). sign_checked r) ?reqs" by (simp add: sign_checked_def)
  have h3: "get_product (products example_db) 1 = Some product_A \<and> Product.stock product_A - 6 < 0"
    by (simp add: example_defs)
  have h4: "0 < length (items \<lparr>items = [line 1 6], prescription = None\<rparr>)
            \<and> \<not> line_ok (products example_db) (items \<lparr>items = [line 1 6], prescription = None\<rparr>) 0"
    by (simp add: line_ok_def ordered_for_def example_defs)
  from stock_stays_nonneg [OF h1 h2, of example_db 1 product_A 6 example_env 0
         "\<lparr>items = [line 1 6], prescription = None\<rparr>"] h1 h2 h3 h4
  show ?thesis by blast
qed

text \<open>
  Claim C5 as stated fails: from a database whose stocks are all non-negative, one stock
  adjustment "increase" with quantity -10 leaves stock -5, and one product update
  supplying stock -1 stores -1. Neither handler checks the sign.
\<close>

theorem stock_driven_negative:
  "stock_nonneg example_db
   \<and> \<not> stock_nonneg (run example_db [(example_env, UpdateStock 1 (- 10) ''increase'')])
   \<and> \<not> stock_nonneg
        (run example_db
           [(example_env,
             UpdateProduct 1
               \<lparr>ProductCreate.name = ''A'', description = None, price = 10, stock = - 1\<rparr>)])"
  by (simp add: stock_nonneg_def handle_def update_stock_def update_product_def Let_def
        valid_operations_def get_product_by_name_def example_defs)

section \<open>Status updates\<close>

text \<open>
  Claim C7. A lab-order status outside the four valid values is to be rejected with
  HTTP 400 before any write. The code rejects it before any write, but not with an
  \<open>HTTPException\<close>: building the exception evaluates \<open>status.HTTP_400_BAD_REQUEST\<close> on the
  string parameter \<open>status\<close> and raises \<open>AttributeError\<close>, which the framework answers
  with status 500. Evaluated for lab order 1 and the status "shipped", in any environment.
\<close>

theorem invalid_lab_status_raises_attribute_error:
  "update_lab_order_status e lab_db 1 ''shipped''
     = (Inl (AttributeError ''str'' ''HTTP_400_BAD_REQUEST''), lab_db)"
  by (simp add: update_lab_order_status_def lab_valid_statuses_def)

text \<open>
  Claim C8, as amended. The status-update operation writes to an existing order any
  status among pending, completed and cancelled, whatever the order's current status, when
  the commit goes through; it writes no status outside these three. Hence pending to
  completed and pending to cancelled are admitted, and so is every other transition among
  the three values: completed and cancelled are not terminal.
\<close>

theorem update_order_status_assigns:
  assumes "get_order (orders d) oid = Some ord"
  shows "(new_status \<in> {''pending'', ''completed'', ''cancelled''} \<and> storage_error e = None \<longrightarrow>
            (\<exists>d'. update_order_status e d oid new_status
                     = (Inr ''Order status updated successfully'', d')
                 \<and> get_order (orders d') oid
                     = Some (ord\<lparr>Order.status := new_status, Order.updated_at := utcnow e\<rparr>)))
       \<and> (\<forall>r d'. update_order_status e d oid new_status = (Inr r, d') \<longrightarrow>
            new_status \<in> {''pending'', ''completed'', ''cancelled''})
       \<and> (new_status \<notin> {''pending'', ''completed'', ''cancelled''} \<longrightarrow>
            snd (update_order_status e d oid new_status) = d)"
proof -
  have oid: "Order.id ord = oid" using assms by (rule get_order_id)
  have v: "set order_valid_statuses = {''pending'', ''completed'', ''cancelled''}"
    by (simp add: order_valid_statuses_def)
  show ?thesis
    using assms oid
    by (auto simp: update_order_status_def v Let_def get_order_put
             simp del: set_simps split: option.splits if_splits)
qed

theorem update_order_status_assigns_witness:
  "get_order (orders orders_db) 1 = Some completed_order
   \<and> storage_error example_env = None
   \<and> (\<exists>d'. update_order_status example_env orders_db 1 ''cancelled''
              = (Inr ''Order status updated successfully'', d')
          \<and> get_order (orders d') 1
              = Some (completed_order\<lparr>Order.status := ''cancelled'', Order.updated_at := 100\<rparr>))
   \<and> snd (update_order_status example_env orders_db 1 ''shipped'') = orders_db"
proof -
  have h: "get_order (orders orders_db) 1 = Some completed_order"
    by (simp add: get_order_def orders_db_def completed_order_def example_defs)
  have s: "storage_error example_env = None" by (simp add: example_env_def)
  have u: "utcnow example_env = 100" by (simp add: example_env_def)
  from update_order_status_assigns [OF h, of "''cancelled''" example_env]
       update_order_status_assigns [OF h, of "''shipped''" example_env] h s u
  show ?thesis by simp
qed

text \<open>
  Claim C8 as stated fails: an order whose status is completed is set back to pending by
  one status update.
\<close>

theorem completed_order_reopened:
  "get_order (orders orders_db) 1 = Some completed_order
   \<and> Order.status completed_order = ''completed''
   \<and> fst (update_order_status example_env orders_db 1 ''pending'')
       = Inr ''Order status updated successfully''
   \<and> get_order (orders (snd (update_order_status example_env orders_db 1 ''pending''))) 1
       = Some (completed_order\<lparr>Order.status := ''pending'', Order.updated_at := 100\<rparr>)"
  by (simp add: update_order_status_def order_valid_statuses_def get_order_def put_order_def
        orders_db_def completed_order_def example_defs)

end
